theory Spec2Isabelle
  imports Main
begin

section \<open>Python values used by the chat handler\<close>

text \<open>
  Python strings are modelled as \<^typ>\<open>string\<close>; one \<^typ>\<open>char\<close> stands for one code point
  below 256.  The exceptions the handler can raise are values of \<open>py_error\<close>; a function
  that may raise returns \<open>py_error + 'a\<close> with \<open>Inl\<close> for the exception.
\<close>

datatype py_error =
    JSONDecodeError
  | KeyError string
  | IndexError
  | TypeError
  | ValueError string
  | AssertionError string
  | OtherError string

text \<open>
  The values \<open>json.loads\<close> produces and \<open>json.dumps\<close> consumes.  A dict is an association
  list in insertion order.  A float is carried as the text \<open>json.dumps\<close> prints for it
  (its \<open>repr\<close>, or \<open>NaN\<close>, \<open>Infinity\<close>, \<open>-Infinity\<close>): the handler never computes with one.
\<close>

datatype json =
    JNull
  | JBool bool
  | JInt int
  | JFloat string
  | JString string
  | JArray "json list"
  | JObject "(string \<times> json) list"

definition nl :: char where
  "nl = CHR 0x0A"

definition dq :: char where
  "dq = CHR 0x22"

definition bsl :: char where
  "bsl = CHR 0x5C"

text \<open>\<open>sep.join(xs)\<close>\<close>

fun str_join :: "string \<Rightarrow> string list \<Rightarrow> string" where
  "str_join sep [] = []"
| "str_join sep [x] = x"
| "str_join sep (x # y # ys) = x @ sep @ str_join sep (y # ys)"

subsection \<open>\<open>json.dumps\<close>\<close>

text \<open>
  The standard library's encoder with its default options (\<open>ensure_ascii=True\<close>, key
  separator \<open>": "\<close>, item separator \<open>", "\<close> without \<open>indent\<close> and \<open>","\<close> with it).
\<close>

definition digit_char :: "nat \<Rightarrow> char" where
  "digit_char d = ''0123456789abcdef'' ! d"

function nat_repr :: "nat \<Rightarrow> string" where
  "nat_repr n = (if n < 10 then [digit_char n] else nat_repr (n div 10) @ [digit_char (n mod 10)])"
  by pat_completeness auto
termination
  by (relation "measure (\<lambda>n. n)") auto

definition int_repr :: "int \<Rightarrow> string" where
  "int_repr i = (if i < 0 then CHR ''-'' # nat_repr (nat (- i)) else nat_repr (nat i))"

text \<open>
  \<open>ESCAPE_ASCII\<close> matches the backslash, the double quote and everything outside
  \<open>' '..'~'\<close>; \<open>ESCAPE_DCT\<close> gives the short escapes, every other match becomes
  \<open>\u00xx\<close> in lower-case hexadecimal.
\<close>

definition escape_char :: "char \<Rightarrow> string" where
  "escape_char c =
     (if c = bsl then [bsl, bsl]
      else if c = dq then [bsl, dq]
      else if c = CHR 0x08 then [bsl, CHR ''b'']
      else if c = CHR 0x0C then [bsl, CHR ''f'']
      else if c = CHR 0x0A then [bsl, CHR ''n'']
      else if c = CHR 0x0D then [bsl, CHR ''r'']
      else if c = CHR 0x09 then [bsl, CHR ''t'']
      else if (32::nat) \<le> of_char c \<and> of_char c \<le> (126::nat) then [c]
      else [bsl, CHR ''u'', CHR ''0'', CHR ''0'',
            digit_char (of_char c div 16), digit_char (of_char c mod 16)])"

definition encode_basestring_ascii :: "string \<Rightarrow> string" where
  "encode_basestring_ascii s = [dq] @ concat (map escape_char s) @ [dq]"

fun newline_indent :: "nat option \<Rightarrow> nat \<Rightarrow> string" where
  "newline_indent None level = []"
| "newline_indent (Some n) level = nl # replicate (n * level) CHR '' ''"

fun item_separator :: "nat option \<Rightarrow> string" where
  "item_separator None = '', ''"
| "item_separator (Some n) = '',''"

definition key_separator :: string where
  "key_separator = '': ''"

fun iterencode :: "nat option \<Rightarrow> nat \<Rightarrow> json \<Rightarrow> string"
  and iterencode_list :: "nat option \<Rightarrow> nat \<Rightarrow> json list \<Rightarrow> string list"
  and iterencode_dict :: "nat option \<Rightarrow> nat \<Rightarrow> (string \<times> json) list \<Rightarrow> string list"
where
  "iterencode ind level JNull = ''null''"
| "iterencode ind level (JBool b) = (if b then ''true'' else ''false'')"
| "iterencode ind level (JInt i) = int_repr i"
| "iterencode ind level (JFloat r) = r"
| "iterencode ind level (JString s) = encode_basestring_ascii s"
| "iterencode ind level (JArray xs) =
     (if xs = [] then ''[]''
      else ''['' @ newline_indent ind (level + 1)
           @ str_join (item_separator ind @ newline_indent ind (level + 1))
               (iterencode_list ind (level + 1) xs)
           @ newline_indent ind level @ '']'')"
| "iterencode ind level (JObject kvs) =
     (if kvs = [] then ''{}''
      else ''{'' @ newline_indent ind (level + 1)
           @ str_join (item_separator ind @ newline_indent ind (level + 1))
               (iterencode_dict ind (level + 1) kvs)
           @ newline_indent ind level @ ''}'')"
| "iterencode_list ind level [] = []"
| "iterencode_list ind level (x # xs) = iterencode ind level x # iterencode_list ind level xs"
| "iterencode_dict ind level [] = []"
| "iterencode_dict ind level ((k, v) # kvs) =
     (encode_basestring_ascii k @ key_separator @ iterencode ind level v)
       # iterencode_dict ind level kvs"

definition json_dumps :: "nat option \<Rightarrow> json \<Rightarrow> string" where
  "json_dumps ind v = iterencode ind 0 v"

subsection \<open>Subscripting a decoded value\<close>

text \<open>
  \<open>v[key]\<close> with a string key: a dict raises \<open>KeyError\<close> when the key is missing, every other
  decoded value (list, string, number, boolean, \<open>None\<close>) raises \<open>TypeError\<close>.
\<close>

fun py_getitem :: "json \<Rightarrow> string \<Rightarrow> py_error + json" where
  "py_getitem (JObject kvs) key =
     (case map_of kvs key of None \<Rightarrow> Inl (KeyError key) | Some v \<Rightarrow> Inr v)"
| "py_getitem v key = Inl TypeError"

text \<open>An f-string field \<open>{x}\<close> for an optional string: \<open>None\<close> prints as \<open>None\<close>.\<close>

fun py_format :: "string option \<Rightarrow> string" where
  "py_format None = ''None''"
| "py_format (Some s) = s"

section \<open>Request data\<close>

text \<open>
  The request classes of \<open>_api_server.py\<close>.  \<open>completions_endpoint\<close> hands the handler
  \<open>model_dump(exclude_none=True)\<close> of the request, so an optional field that is \<open>None\<close> here
  is a key the handler's dict does not have; only \<open>content\<close> is restored to \<open>None\<close>.
\<close>

record tool_property =
  prop_title :: string
  prop_type :: string

record tool_parameters =
  params_type :: string
  params_title :: string
  required :: "string list"
  properties :: "(string \<times> tool_property) list"

record tool_function =
  fn_name :: string
  description :: "string option"
  parameters :: tool_parameters

record tool =
  tool_type :: string
  tool_fn :: tool_function

record message_function_call =
  fc_name :: string
  fc_arguments :: string

record message_tool_call =
  tc_id :: string
  tc_type :: string
  tc_function :: message_function_call

record message =
  role :: string
  content :: "string option"
  tool_calls :: "message_tool_call list option"
  function_call :: "message_function_call option"

text \<open>The \<open>stop\<close> argument of the handler: \<open>Optional[Union[str, List[str]]]\<close>.\<close>

datatype stop_arg = StopNone | StopStr string | StopList "string list"

section \<open>The prompt compiler\<close>

subsection \<open>\<open>_format_tools\<close>\<close>

definition trelis_arguments :: "(string \<times> tool_property) list \<Rightarrow> json list" where
  "trelis_arguments props =
     map (\<lambda>(name, property).
            JObject [(''name'', JString name), (''type'', JString (prop_type property))]) props"

definition trelis_tool :: "tool \<Rightarrow> py_error + json" where
  "trelis_tool t =
     (case description (tool_fn t) of
        None \<Rightarrow> Inl (KeyError ''description'')
      | Some d \<Rightarrow>
          Inr (JObject
            [(''function'', JString (fn_name (tool_fn t))),
             (''description'', JString d),
             (''arguments'', JArray (trelis_arguments (properties (parameters (tool_fn t)))))]))"

fun trelis_tools :: "tool list \<Rightarrow> py_error + json list" where
  "trelis_tools [] = Inr []"
| "trelis_tools (t # ts) =
     (case trelis_tool t of
        Inl e \<Rightarrow> Inl e
      | Inr j \<Rightarrow> (case trelis_tools ts of Inl e \<Rightarrow> Inl e | Inr js \<Rightarrow> Inr (j # js)))"

text \<open>The parameters \<open>messages\<close> and \<open>functions\<close> of \<open>_format_tools\<close> are never read.\<close>

definition format_tools :: "tool list option \<Rightarrow> py_error + string" where
  "format_tools tools =
     (case tools of
        None \<Rightarrow> Inr []
      | Some ts \<Rightarrow>
          if length ts = 0 then Inr []
          else (case trelis_tools ts of
                  Inl e \<Rightarrow> Inl e
                | Inr js \<Rightarrow>
                    Inr (''<FUNCTIONS>'' @ json_dumps (Some 4) (JArray js)
                         @ ''</FUNCTIONS>'' @ [nl, nl])))"

subsection \<open>\<open>_format_messages\<close>\<close>

record state =
  user :: "string option"
  system :: "string option"
  assistant :: "string option"

definition reset_state :: state where
  "reset_state = \<lparr>user = None, system = None, assistant = None\<rparr>"

text \<open>The three keys of the \<open>state\<close> dict, the only role names \<open>_push_state\<close> is called with.\<close>

datatype slot = SlotUser | SlotSystem | SlotAssistant

fun state_get :: "state \<Rightarrow> slot \<Rightarrow> string option" where
  "state_get st SlotUser = user st"
| "state_get st SlotSystem = system st"
| "state_get st SlotAssistant = assistant st"

text \<open>The block \<open>_push_state\<close> appends to \<open>lines\<close> once it has decided to flush.\<close>

definition render_state :: "state \<Rightarrow> string" where
  "render_state st =
     (let sys = (case system st of
                   None \<Rightarrow> []
                 | Some s \<Rightarrow> ''<<SYS>>'' @ [nl] @ s @ [nl] @ ''<</SYS>>'' @ [nl, nl]);
          prompt = (case user st of
                      None \<Rightarrow> []
                    | Some u \<Rightarrow> ''[INST] '' @ sys @ u @ '' [/INST]'')
      in (case assistant st of
            None \<Rightarrow> prompt
          | Some a \<Rightarrow> ''<s>'' @ prompt @ '' '' @ a @ ''</s>''))"

definition push_state :: "slot option \<Rightarrow> state \<times> string list \<Rightarrow> state \<times> string list" where
  "push_state target sl =
     (case sl of (st, lines) \<Rightarrow>
        if (case target of None \<Rightarrow> False | Some r \<Rightarrow> state_get st r = None) then (st, lines)
        else if user st = None \<and> system st = None \<and> assistant st = None then (st, lines)
        else (reset_state, lines @ [render_state st]))"

definition format_function_call ::
  "(string \<Rightarrow> py_error + json) \<Rightarrow> message_function_call \<Rightarrow> py_error + string" where
  "format_function_call loads fc =
     (case loads (fc_arguments fc) of
        Inl e \<Rightarrow> Inl e
      | Inr args \<Rightarrow>
          Inr (json_dumps None (JObject [(''function'', JString (fc_name fc)), (''arguments'', args)])))"

text \<open>
  \<open>"tool_calls" in message\<close> and \<open>"function_call" in message\<close> are the tests for \<open>Some\<close>;
  the \<open>None\<close> branch of a \<open>case\<close> under such a test is never taken.
\<close>

definition format_message_content ::
  "(string \<Rightarrow> py_error + json) \<Rightarrow> message \<Rightarrow> py_error + string option" where
  "format_message_content loads m =
     (if role m = ''assistant'' \<and> tool_calls m \<noteq> None then
        (case tool_calls m of
           Some (tc # rest) \<Rightarrow> map_sum id Some (format_function_call loads (tc_function tc))
         | _ \<Rightarrow> Inl IndexError)
      else if role m = ''assistant'' \<and> function_call m \<noteq> None then
        (case function_call m of
           Some fc \<Rightarrow> map_sum id Some (format_function_call loads fc)
         | None \<Rightarrow> Inl (KeyError ''function_call''))
      else if role m = ''function'' then
        Inr (Some (''Here is the response to that function call:'' @ [nl, nl, dq]
                   @ py_format (content m) @ [dq]))
      else Inr (content m))"

text \<open>
  One pass through the body of the \<open>while True\<close> loop, for the message \<open>next(i)\<close> returned:
  the flush keyed by the target slot, then the assignment to that slot.
\<close>

definition format_turn ::
  "(string \<Rightarrow> py_error + json) \<Rightarrow> message \<Rightarrow> state \<times> string list
     \<Rightarrow> py_error + state \<times> string list" where
  "format_turn loads m sl =
     (if role m = ''user'' \<or> role m = ''function'' then
        (case push_state (Some SlotUser) sl of (st, lines) \<Rightarrow>
           (case format_message_content loads m of
              Inl e \<Rightarrow> Inl e
            | Inr c \<Rightarrow> Inr (st\<lparr>user := c\<rparr>, lines)))
      else if role m = ''system'' then
        (case push_state (Some SlotSystem) sl of (st, lines) \<Rightarrow>
           (case format_message_content loads m of
              Inl e \<Rightarrow> Inl e
            | Inr c \<Rightarrow> Inr (st\<lparr>system := c\<rparr>, lines)))
      else if role m = ''assistant'' then
        (case push_state (Some SlotAssistant) sl of (st, lines) \<Rightarrow>
           (case format_message_content loads m of
              Inl e \<Rightarrow> Inl e
            | Inr c \<Rightarrow> Inr (st\<lparr>assistant := c\<rparr>, lines)))
      else Inl (ValueError (''Unknown role: '' @ role m)))"

text \<open>
  The loop over the iterator; the empty list is \<open>StopIteration\<close>, handled by the final
  \<open>_push_state(role=None)\<close>.
\<close>

fun format_loop ::
  "(string \<Rightarrow> py_error + json) \<Rightarrow> message list \<Rightarrow> state \<times> string list
     \<Rightarrow> py_error + state \<times> string list" where
  "format_loop loads [] sl = Inr (push_state None sl)"
| "format_loop loads (m # ms) sl =
     (case format_turn loads m sl of
        Inl e \<Rightarrow> Inl e
      | Inr sl' \<Rightarrow> format_loop loads ms sl')"

definition format_messages ::
  "(string \<Rightarrow> py_error + json) \<Rightarrow> message list \<Rightarrow> py_error + string" where
  "format_messages loads messages =
     (case format_loop loads messages (reset_state, []) of
        Inl e \<Rightarrow> Inl e
      | Inr (st, lines) \<Rightarrow> Inr (str_join [nl] lines))"

text \<open>Line 141: \<open>prompt = _format_tools(messages, functions, tools) + _format_messages(messages)\<close>.\<close>

definition compile_prompt ::
  "(string \<Rightarrow> py_error + json) \<Rightarrow> tool list option \<Rightarrow> message list \<Rightarrow> py_error + string" where
  "compile_prompt loads tools messages =
     (case format_tools tools of
        Inl e \<Rightarrow> Inl e
      | Inr header \<Rightarrow>
          (case format_messages loads messages of
             Inl e \<Rightarrow> Inl e
           | Inr body \<Rightarrow> Inr (header @ body)))"

section \<open>The chat-completion handler\<close>

text \<open>
  What \<open>llama.create_completion\<close> receives and returns.  \<open>'p\<close> stands for the arguments the
  handler passes through untouched (\<open>grammar\<close>, \<open>max_tokens\<close>, \<open>temperature\<close>, \<open>top_p\<close>,
  \<open>top_k\<close>, \<open>min_p\<close>, \<open>typical_p\<close>, the penalties, \<open>tfs_z\<close>, the mirostat settings, \<open>model\<close>,
  \<open>logits_processor\<close>), \<open>'u\<close> for the usage statistics.
\<close>

record 'p completion_args =
  prompt :: string
  stop :: "string list"
  stream :: bool
  sampling :: 'p

record completion_choice =
  choice_text :: string

record 'u completion =
  cmpl_id :: string
  cmpl_created :: int
  cmpl_model :: string
  cmpl_choices :: "completion_choice list"
  cmpl_usage :: 'u

record response_function =
  rf_name :: json
  rf_arguments :: string

record response_tool_call =
  rtc_id :: json
  rtc_type :: string
  rtc_function :: response_function

text \<open>
  The \<open>message\<close> dict of the response.  \<open>rm_content\<close> is the value stored under \<open>content\<close>
  (\<open>None\<close> for Python's \<open>None\<close>); the other two options are \<open>None\<close> when the key was never set.
\<close>

record response_message =
  rm_role :: string
  rm_content :: "string option"
  rm_tool_calls :: "response_tool_call list option"
  rm_function_call :: "response_function option"

record response_choice =
  choice_index :: nat
  choice_message :: response_message
  finish_reason :: string

record 'u chat_completion =
  resp_id :: string
  resp_object :: string
  resp_created :: int
  resp_model :: string
  resp_choices :: "response_choice list"
  resp_usage :: 'u

text \<open>
  \<open>_parse_tool_calls\<close>: only \<open>json.JSONDecodeError\<close> is caught; what subscripting the decoded
  value raises leaves the function.  \<open>completion["choices"][0]\<close> is read before the \<open>try\<close>.
\<close>

definition parse_tool_calls ::
  "(string \<Rightarrow> py_error + json) \<Rightarrow> 'u completion \<Rightarrow> py_error + response_tool_call list option" where
  "parse_tool_calls loads completion =
     (case cmpl_choices completion of
        [] \<Rightarrow> Inl IndexError
      | ch # rest \<Rightarrow>
          (case loads (choice_text ch) of
             Inl e \<Rightarrow> (if e = JSONDecodeError then Inr None else Inl e)
           | Inr fc \<Rightarrow>
               (case py_getitem fc ''function'' of
                  Inl e \<Rightarrow> Inl e
                | Inr f \<Rightarrow>
                    (case py_getitem fc ''arguments'' of
                       Inl e \<Rightarrow> Inl e
                     | Inr a \<Rightarrow>
                         Inr (Some [\<lparr>rtc_id = f, rtc_type = ''function'',
                                     rtc_function = \<lparr>rf_name = f,
                                       rf_arguments = json_dumps (Some 2) a\<rparr>\<rparr>])))))"

text \<open>Lines 181 to 191: the assistant message built from the completion.\<close>

definition assistant_message ::
  "(string \<Rightarrow> py_error + json) \<Rightarrow> 'u completion \<Rightarrow> py_error + response_message" where
  "assistant_message loads completion =
     (case parse_tool_calls loads completion of
        Inl e \<Rightarrow> Inl e
      | Inr (Some calls) \<Rightarrow>
          (case calls of
             [] \<Rightarrow> Inl IndexError
           | tc # rest \<Rightarrow>
               Inr \<lparr>rm_role = ''assistant'', rm_content = None, rm_tool_calls = Some calls,
                    rm_function_call = Some (rtc_function tc)\<rparr>)
      | Inr None \<Rightarrow>
          (case cmpl_choices completion of
             [] \<Rightarrow> Inl IndexError
           | ch # rest \<Rightarrow>
               Inr \<lparr>rm_role = ''assistant'', rm_content = Some (choice_text ch),
                    rm_tool_calls = None, rm_function_call = None\<rparr>))"

text \<open>
  The handler.  \<open>loads\<close> is \<open>json.loads\<close>; \<open>create_completion\<close> is the method of the \<open>llama\<close>
  object, a transition of its state \<open>'s\<close> that returns a completion or raises.  The result
  is what the handler returns or raises, the state of \<open>llama\<close> afterwards, and the arguments
  of every call it made to \<open>create_completion\<close>, in order.  The parameters \<open>functions\<close>,
  \<open>function_call\<close>, \<open>tool_choice\<close>, \<open>response_format\<close> and \<open>kwargs\<close> are never read and are
  left out; \<open>stop_param\<close> is the \<open>stop\<close> parameter and \<open>stream_param\<close> the \<open>stream\<close> parameter.
\<close>

definition llama2_functary_chat_completion_handler ::
  "(string \<Rightarrow> py_error + json)
   \<Rightarrow> ('p completion_args \<Rightarrow> 's \<Rightarrow> (py_error + 'u completion) \<times> 's)
   \<Rightarrow> 's \<Rightarrow> message list \<Rightarrow> tool list option \<Rightarrow> bool \<Rightarrow> stop_arg \<Rightarrow> 'p
   \<Rightarrow> (py_error + 'u chat_completion) \<times> 's \<times> 'p completion_args list" where
  "llama2_functary_chat_completion_handler loads create_completion llama messages tools
       stream_param stop_param params =
     (case compile_prompt loads tools messages of
        Inl e \<Rightarrow> (Inl e, llama, [])
      | Inr p \<Rightarrow>
          if stream_param \<noteq> False then
            (Inl (AssertionError ''streaming is not supported yet''), llama, [])
          else
            (let args = \<lparr>prompt = p, stop = [''user:'', ''</s>''], stream = False,
                         sampling = params\<rparr>
             in (case create_completion args llama of
                   (Inl e, llama') \<Rightarrow> (Inl e, llama', [args])
                 | (Inr completion, llama') \<Rightarrow>
                     (case assistant_message loads completion of
                        Inl e \<Rightarrow> (Inl e, llama', [args])
                      | Inr msg \<Rightarrow>
                          (Inr \<lparr>resp_id = ''chat'' @ cmpl_id completion,
                                resp_object = ''chat.completion'',
                                resp_created = cmpl_created completion,
                                resp_model = cmpl_model completion,
                                resp_choices =
                                  [\<lparr>choice_index = 0, choice_message = msg,
                                    finish_reason = ''stop''\<rparr>],
                                resp_usage = cmpl_usage completion\<rparr>,
                           llama', [args])))))"

section \<open>Example inputs\<close>

text \<open>
  What \<open>json.loads\<close> returns or raises on the texts the examples below decode; a finite
  table of the decoder's results, every other text being marked as not tabulated.
\<close>

definition foo_bar_text :: string where
  "foo_bar_text = [CHR ''{'', dq] @ ''foo'' @ [dq, CHR '':'', dq] @ ''bar'' @ [dq, CHR ''}'']"

definition weather_call_text :: string where
  "weather_call_text =
     [CHR ''{'', dq] @ ''function'' @ [dq, CHR '':'', dq] @ ''weather''
     @ [dq, CHR '','', dq] @ ''arguments'' @ [dq, CHR '':'', CHR ''{'', dq]
     @ ''location'' @ [dq, CHR '':'', dq] @ ''Tokyo'' @ [dq, CHR ''}'', CHR ''}'']"

definition loads_examples :: "string \<Rightarrow> py_error + json" where
  "loads_examples s =
     (if s = foo_bar_text then Inr (JObject [(''foo'', JString ''bar'')])
      else if s = weather_call_text
        then Inr (JObject [(''function'', JString ''weather''),
                           (''arguments'', JObject [(''location'', JString ''Tokyo'')])])
      else if s = ''[1, 2]'' then Inr (JArray [JInt 1, JInt 2])
      else if s = ''42'' then Inr (JInt 42)
      else if s = ''The weather is nice.'' then Inl JSONDecodeError
      else Inl (OtherError ''not tabulated''))"

text \<open>
  A collaborator in the manner of the tests' \<open>MagicMock\<close>: it answers every call with one
  fixed completion whose text is given, and its state counts the calls it received.
\<close>

definition mock_llama ::
  "string \<Rightarrow> 'p completion_args \<Rightarrow> nat \<Rightarrow> (py_error + unit completion) \<times> nat" where
  "mock_llama txt args n =
     (Inr \<lparr>cmpl_id = ''cmpl-1'', cmpl_created = 1700000000, cmpl_model = ''functionary'',
           cmpl_choices = [\<lparr>choice_text = txt\<rparr>], cmpl_usage = ()\<rparr>, Suc n)"

definition plain_message :: "string \<Rightarrow> string \<Rightarrow> message" where
  "plain_message r c = \<lparr>role = r, content = Some c, tool_calls = None, function_call = None\<rparr>"

definition weather_tool :: "string option \<Rightarrow> tool" where
  "weather_tool d =
     \<lparr>tool_type = ''function'',
      tool_fn = \<lparr>fn_name = ''weather'', description = d,
        parameters = \<lparr>params_type = ''object'', params_title = ''Weather'',
          required = [''location''],
          properties = [(''location'', \<lparr>prop_title = ''Location'', prop_type = ''string''\<rparr>)]\<rparr>\<rparr>\<rparr>"

text \<open>The header \<open>_format_tools\<close> is expected to print for the weather tool, line by line.\<close>

definition quoted :: "string \<Rightarrow> string" where
  "quoted s = [dq] @ s @ [dq]"

definition weather_header :: string where
  "weather_header =
     str_join [nl]
       [''<FUNCTIONS>['',
        ''    {'',
        ''        '' @ quoted ''function'' @ '': '' @ quoted ''weather'' @ '','',
        ''        '' @ quoted ''description'' @ '': '' @ quoted ''Get the weather'' @ '','',
        ''        '' @ quoted ''arguments'' @ '': ['',
        ''            {'',
        ''                '' @ quoted ''name'' @ '': '' @ quoted ''location'' @ '','',
        ''                '' @ quoted ''type'' @ '': '' @ quoted ''string'',
        ''            }'',
        ''        ]'',
        ''    }'',
        '']</FUNCTIONS>'',
        '''',
        '''']"

section \<open>Predicates of the specification\<close>

text \<open>The function-call shape \<open>{function: string, arguments: object}\<close> of a decoded value.\<close>

fun function_call_shape :: "json \<Rightarrow> bool" where
  "function_call_shape (JObject kvs) =
     (case (map_of kvs ''function'', map_of kvs ''arguments'') of
        (Some (JString n), Some (JObject a)) \<Rightarrow> True
      | _ \<Rightarrow> False)"
| "function_call_shape v = False"

text \<open>The four recognised role values.\<close>

definition recognised_role :: "string \<Rightarrow> bool" where
  "recognised_role r = (r \<in> {''system'', ''user'', ''assistant'', ''function''})"

text \<open>\<open>isinstance(e, ValueError)\<close>: \<open>json.JSONDecodeError\<close> is a subclass of \<open>ValueError\<close>.\<close>

fun is_ValueError :: "py_error \<Rightarrow> bool" where
  "is_ValueError (ValueError msg) = True"
| "is_ValueError JSONDecodeError = True"
| "is_ValueError e = False"

text \<open>
  The projection of one tool declaration with description \<open>d\<close> that the header carries:
  \<open>{function: name, description, arguments: [{name, type} for each property]}\<close>.
\<close>

definition tool_projection :: "tool \<Rightarrow> string \<Rightarrow> json" where
  "tool_projection t d =
     JObject
       [(''function'', JString (fn_name (tool_fn t))),
        (''description'', JString d),
        (''arguments'',
           JArray (map (\<lambda>np. JObject [(''name'', JString (fst np)),
                                        (''type'', JString (prop_type (snd np)))])
                       (properties (parameters (tool_fn t)))))]"


section \<open>Properties\<close>

text \<open>The definitions a concrete run of the handler unfolds.\<close>

lemmas example_defs =
  llama2_functary_chat_completion_handler_def compile_prompt_def format_tools_def
  format_messages_def format_turn_def push_state_def reset_state_def render_state_def
  format_message_content_def plain_message_def mock_llama_def assistant_message_def
  parse_tool_calls_def loads_examples_def foo_bar_text_def weather_call_text_def dq_def nl_def

subsection \<open>The prompt compiler\<close>

lemma push_state_empty [simp]: "push_state target (reset_state, lines) = (reset_state, lines)"
  by (cases target) (simp_all add: push_state_def reset_state_def)

lemma format_turn_unknown:
  "\<not> recognised_role (role m) \<Longrightarrow>
     format_turn loads m sl = Inl (ValueError (''Unknown role: '' @ role m))"
  by (simp add: format_turn_def recognised_role_def)

lemma format_turn_recognised:
  assumes "recognised_role (role m)" and "format_message_content loads m = Inr c"
  shows "\<exists>sl'. format_turn loads m sl = Inr sl'"
  using assms
  by (auto simp: format_turn_def recognised_role_def split: prod.splits)

lemma format_loop_unknown_fails:
  "\<exists>m\<in>set ms. \<not> recognised_role (role m) \<Longrightarrow> \<exists>e. format_loop loads ms sl = Inl e"
proof (induction ms arbitrary: sl)
  case Nil
  then show ?case by simp
next
  case (Cons m ms)
  show ?case
  proof (cases "format_turn loads m sl")
    case (Inl e)
    then show ?thesis by simp
  next
    case (Inr sl')
    then have "recognised_role (role m)"
      using format_turn_unknown [of m loads sl] by auto
    with Cons.prems have "\<exists>x\<in>set ms. \<not> recognised_role (role x)" by auto
    from Cons.IH [OF this, of sl'] Inr show ?thesis by simp
  qed
qed

lemma format_loop_first_unknown:
  assumes "\<not> recognised_role (role m)"
    and "\<forall>x\<in>set pre. recognised_role (role x) \<and> (\<exists>c. format_message_content loads x = Inr c)"
  shows "format_loop loads (pre @ m # post) sl = Inl (ValueError (''Unknown role: '' @ role m))"
  using assms(2)
proof (induction pre arbitrary: sl)
  case Nil
  show ?case using assms(1) by (simp add: format_turn_unknown)
next
  case (Cons x pre)
  then obtain c where "recognised_role (role x)" "format_message_content loads x = Inr c"
    by auto
  then obtain sl' where "format_turn loads x sl = Inr sl'"
    using format_turn_recognised by blast
  moreover have "format_loop loads (pre @ m # post) sl' = Inl (ValueError (''Unknown role: '' @ role m))"
    using Cons by simp
  ultimately show ?case by simp
qed




text \<open>
  Claim C3, as the code has it.  A sequence made of one user turn and nothing else, the
  content being a string, compiles with an empty or absent tools list to
  \<open>[INST] content [/INST]\<close>, no header before it.
\<close>

theorem single_user_turn:
  assumes "role m = ''user''" and "content m = Some c" and "tools = None \<or> tools = Some []"
  shows "compile_prompt loads tools [m] = Inr (''[INST] '' @ c @ '' [/INST]'')"
proof -
  have "format_tools tools = Inr []"
    using assms(3) by (auto simp: format_tools_def)
  moreover have "format_message_content loads m = Inr (Some c)"
    using assms(1,2) by (simp add: format_message_content_def)
  then have "format_messages loads [m] = Inr (''[INST] '' @ c @ '' [/INST]'')"
    using assms(1)
    by (simp add: format_messages_def format_turn_def)
       (simp add: push_state_def render_state_def reset_state_def)
  ultimately show ?thesis by (simp add: compile_prompt_def)
qed

theorem single_user_turn_witness:
  "compile_prompt loads_examples (Some []) [plain_message ''user'' ''how is the weather?'']
     = Inr ''[INST] how is the weather? [/INST]''"
proof -
  have r: "role (plain_message ''user'' ''how is the weather?'') = ''user''"
    by (simp add: plain_message_def)
  have c: "content (plain_message ''user'' ''how is the weather?'') = Some ''how is the weather?''"
    by (simp add: plain_message_def)
  have t: "Some [] = None \<or> Some [] = Some ([] :: tool list)" by simp
  show ?thesis
    using single_user_turn [where loads = loads_examples, OF r c t] by simp
qed

text \<open>
  As the claim words it, a sequence with one user turn and no system or assistant turn may
  still hold a function turn.  That turn targets the user slot too, so the user turn is
  flushed and a second block follows.
\<close>

theorem single_user_turn_counterexample:
  "compile_prompt loads_examples (Some [])
     [plain_message ''user'' ''a'', plain_message ''function'' ''b'']
     = Inr (''[INST] a [/INST]'' @ [nl] @ ''[INST] Here is the response to that function call:''
            @ [nl, nl, dq] @ ''b'' @ [dq] @ '' [/INST]'')
   \<and> compile_prompt loads_examples (Some [])
     [plain_message ''user'' ''a'', plain_message ''function'' ''b'']
     \<noteq> Inr ''[INST] a [/INST]''"
  by (simp add: example_defs)

lemma trelis_arguments_eq:
  "trelis_arguments props
     = map (\<lambda>np. JObject [(''name'', JString (fst np)), (''type'', JString (prop_type (snd np)))]) props"
  by (simp add: trelis_arguments_def case_prod_beta)

lemma trelis_tool_described:
  "description (tool_fn t) = Some d \<Longrightarrow> trelis_tool t = Inr (tool_projection t d)"
  by (simp add: trelis_tool_def tool_projection_def trelis_arguments_eq)

lemma trelis_tools_described:
  "map (\<lambda>t. description (tool_fn t)) ts = map Some ds
     \<Longrightarrow> trelis_tools ts = Inr (map2 tool_projection ts ds)"
proof (induction ts arbitrary: ds)
  case Nil
  then show ?case by simp
next
  case (Cons t ts)
  then obtain d ds' where ds: "ds = d # ds'" by (cases ds) auto
  with Cons.prems have "description (tool_fn t) = Some d"
    and "map (\<lambda>t. description (tool_fn t)) ts = map Some ds'" by auto
  with Cons.IH [of ds'] ds show ?case
    by (simp add: trelis_tool_described)
qed

lemma trelis_tool_required:
  "trelis_tool (t\<lparr>tool_fn := (tool_fn t)\<lparr>parameters := (parameters (tool_fn t))\<lparr>required := r\<rparr>\<rparr>\<rparr>)
     = trelis_tool t"
  by (simp add: trelis_tool_def split: option.splits)

lemma trelis_tools_required:
  "trelis_tools (map (\<lambda>t. t\<lparr>tool_fn := (tool_fn t)\<lparr>parameters :=
        (parameters (tool_fn t))\<lparr>required := r t\<rparr>\<rparr>\<rparr>) ts) = trelis_tools ts"
  by (induction ts) (simp_all add: trelis_tool_required split: sum.splits)

text \<open>
  The header of a non-empty tools list in which every tool carries a description:
  \<open><FUNCTIONS>\<close>, then \<open>json.dumps\<close> with \<open>indent=4\<close> of the array of the tools'
  projections, then \<open></FUNCTIONS>\<close> and two newlines.  When the turns compile, the prompt is
  this header followed by the rendered turns; the \<open>required\<close> list of a tool has no influence
  on the header; and the header of an empty or absent tools list is empty.
\<close>

theorem tools_header:
  assumes "ts \<noteq> []" and "map (\<lambda>t. description (tool_fn t)) ts = map Some ds"
  shows "format_tools (Some ts)
           = Inr (''<FUNCTIONS>'' @ json_dumps (Some 4) (JArray (map2 tool_projection ts ds))
                  @ ''</FUNCTIONS>'' @ [nl, nl])
       \<and> compile_prompt loads (Some ts) messages
           = (case format_messages loads messages of
                Inl e \<Rightarrow> Inl e
              | Inr body \<Rightarrow>
                  Inr (''<FUNCTIONS>'' @ json_dumps (Some 4) (JArray (map2 tool_projection ts ds))
                       @ ''</FUNCTIONS>'' @ [nl, nl] @ body))
       \<and> format_tools (Some (map (\<lambda>t. t\<lparr>tool_fn := (tool_fn t)\<lparr>parameters :=
              (parameters (tool_fn t))\<lparr>required := r t\<rparr>\<rparr>\<rparr>) ts)) = format_tools (Some ts)
       \<and> format_tools (Some []) = Inr []
       \<and> format_tools None = Inr []"
proof -
  have header: "format_tools (Some ts)
           = Inr (''<FUNCTIONS>'' @ json_dumps (Some 4) (JArray (map2 tool_projection ts ds))
                  @ ''</FUNCTIONS>'' @ [nl, nl])"
    using assms(1) by (simp add: format_tools_def trelis_tools_described [OF assms(2)])
  have prompt: "compile_prompt loads (Some ts) messages
           = (case format_messages loads messages of
                Inl e \<Rightarrow> Inl e
              | Inr body \<Rightarrow>
                  Inr (''<FUNCTIONS>'' @ json_dumps (Some 4) (JArray (map2 tool_projection ts ds))
                       @ ''</FUNCTIONS>'' @ [nl, nl] @ body))"
    unfolding compile_prompt_def header by (simp split: sum.splits)
  have req: "format_tools (Some (map (\<lambda>t. t\<lparr>tool_fn := (tool_fn t)\<lparr>parameters :=
              (parameters (tool_fn t))\<lparr>required := r t\<rparr>\<rparr>\<rparr>) ts)) = format_tools (Some ts)"
    by (simp add: format_tools_def trelis_tools_required)
  have empty: "format_tools (Some []) = Inr []" "format_tools None = Inr []"
    by (simp_all add: format_tools_def)
  from header prompt req empty show ?thesis by simp
qed

lemma weather_header_dumps:
  "''<FUNCTIONS>'' @ json_dumps (Some 4)
      (JArray (map2 tool_projection [weather_tool (Some ''Get the weather'')] [''Get the weather'']))
     @ ''</FUNCTIONS>'' @ [nl, nl] = weather_header"
  by (simp add: json_dumps_def tool_projection_def weather_tool_def weather_header_def quoted_def
      encode_basestring_ascii_def escape_char_def key_separator_def dq_def nl_def bsl_def
      eval_nat_numeral)

theorem tools_header_witness:
  "format_tools (Some [weather_tool (Some ''Get the weather'')]) = Inr weather_header
   \<and> compile_prompt loads_examples (Some [weather_tool (Some ''Get the weather'')])
        [plain_message ''user'' ''hi'']
       = Inr (weather_header @ ''[INST] hi [/INST]'')
   \<and> format_tools (Some [weather_tool (Some ''Get the weather'')
         \<lparr>tool_fn := (tool_fn (weather_tool (Some ''Get the weather'')))
            \<lparr>parameters := (parameters (tool_fn (weather_tool (Some ''Get the weather''))))
               \<lparr>required := []\<rparr>\<rparr>\<rparr>])
       = Inr weather_header"
proof -
  let ?t = "weather_tool (Some ''Get the weather'')"
  have ne: "[?t] \<noteq> []" by simp
  have ds: "map (\<lambda>t. description (tool_fn t)) [?t] = map Some [''Get the weather'']"
    by (simp add: weather_tool_def)
  have body: "format_messages loads_examples [plain_message ''user'' ''hi''] = Inr ''[INST] hi [/INST]''"
    by (simp add: example_defs)
  note fact = tools_header [where loads = loads_examples
      and messages = "[plain_message ''user'' ''hi'']" and r = "\<lambda>t. []", OF ne ds]
  from fact have "format_tools (Some [?t]) = Inr weather_header"
    by (simp only: weather_header_dumps)
  moreover from fact have "compile_prompt loads_examples (Some [?t]) [plain_message ''user'' ''hi'']
       = Inr (weather_header @ ''[INST] hi [/INST]'')"
    by (simp only: body weather_header_dumps [symmetric]) simp
  moreover from fact have "format_tools (Some [?t\<lparr>tool_fn := (tool_fn ?t)
            \<lparr>parameters := (parameters (tool_fn ?t))\<lparr>required := []\<rparr>\<rparr>\<rparr>]) = format_tools (Some [?t])"
    by simp
  ultimately show ?thesis by simp
qed

lemma trelis_tools_missing:
  "\<exists>t\<in>set ts. description (tool_fn t) = None \<Longrightarrow> trelis_tools ts = Inl (KeyError ''description'')"
proof (induction ts)
  case Nil
  then show ?case by simp
next
  case (Cons t ts)
  show ?case
  proof (cases "description (tool_fn t)")
    case None
    then show ?thesis by (simp add: trelis_tool_def)
  next
    case (Some d)
    with Cons.prems have "\<exists>x\<in>set ts. description (tool_fn x) = None" by auto
    from Cons.IH [OF this] Some show ?thesis
      by (simp add: trelis_tool_def)
  qed
qed

text \<open>
  Claim C4.  The claim asks for the header of every non-empty tools list.  The request
  classes declare \<open>description\<close> optional, and \<open>model_dump(exclude_none=True)\<close> hands a tool
  without one to the handler as a dict without that key; the endpoint restores \<open>content\<close>
  but not \<open>description\<close>.  On a tools list with such a tool \<open>tool["function"]["description"]\<close>
  raises \<open>KeyError\<close>: no header is produced, no prompt is compiled, and the handler raises
  before it calls the collaborator.
\<close>

theorem tool_without_description_raises:
  assumes "\<exists>t\<in>set ts. description (tool_fn t) = None"
  shows "format_tools (Some ts) = Inl (KeyError ''description'')
       \<and> compile_prompt loads (Some ts) messages = Inl (KeyError ''description'')
       \<and> llama2_functary_chat_completion_handler loads create_completion llama messages
            (Some ts) stream_param stop_param params
           = (Inl (KeyError ''description''), llama, [])"
proof -
  from assms have "ts \<noteq> []" by auto
  then have ft: "format_tools (Some ts) = Inl (KeyError ''description'')"
    by (simp add: format_tools_def trelis_tools_missing [OF assms])
  then have cp: "compile_prompt loads (Some ts) messages = Inl (KeyError ''description'')"
    by (simp add: compile_prompt_def)
  then have "llama2_functary_chat_completion_handler loads create_completion llama messages
            (Some ts) stream_param stop_param params
           = (Inl (KeyError ''description''), llama, [])"
    by (simp add: llama2_functary_chat_completion_handler_def)
  with ft cp show ?thesis by simp
qed

theorem tool_without_description_witness:
  "format_tools (Some [weather_tool None]) = Inl (KeyError ''description'')
   \<and> compile_prompt loads_examples (Some [weather_tool None]) [plain_message ''user'' ''hi'']
       = Inl (KeyError ''description'')
   \<and> llama2_functary_chat_completion_handler loads_examples
        (mock_llama ''The weather is nice.'') (0::nat) [plain_message ''user'' ''hi'']
        (Some [weather_tool None]) False StopNone ()
       = (Inl (KeyError ''description''), 0, [])"
proof -
  have ex: "\<exists>t\<in>set [weather_tool None]. description (tool_fn t) = None"
    by (simp add: weather_tool_def)
  show ?thesis
    using tool_without_description_raises [where loads = loads_examples
        and create_completion = "mock_llama ''The weather is nice.''" and llama = "0::nat"
        and messages = "[plain_message ''user'' ''hi'']" and stream_param = False
        and stop_param = StopNone and params = "()", OF ex]
    by simp
qed

text \<open>
  Claim C8, as the code has it.  A sequence with a turn of unrecognised role never compiles:
  \<open>_format_messages\<close> raises, and so does the compilation of the prompt, whatever the tools.
  When every turn before the first such turn renders without raising, \<open>_format_messages\<close>
  raises the \<open>ValueError\<close> naming that turn's role; the compilation of the prompt raises the
  same \<open>ValueError\<close> when the tools header renders, and the exception of \<open>_format_tools\<close>,
  which runs first, otherwise.
\<close>

theorem unknown_role_aborts:
  assumes "\<exists>m\<in>set messages. \<not> recognised_role (role m)"
  shows "(\<exists>e. format_messages loads messages = Inl e)
       \<and> (\<exists>e. compile_prompt loads tools messages = Inl e)
       \<and> (\<forall>pre m post.
             messages = pre @ m # post \<and> \<not> recognised_role (role m)
             \<and> (\<forall>x\<in>set pre. recognised_role (role x)
                    \<and> (\<exists>c. format_message_content loads x = Inr c))
             \<longrightarrow> format_messages loads messages
                   = Inl (ValueError (''Unknown role: '' @ role m))
               \<and> ((\<exists>header. format_tools tools = Inr header)
                    \<longrightarrow> compile_prompt loads tools messages
                         = Inl (ValueError (''Unknown role: '' @ role m)))
               \<and> (\<forall>e. format_tools tools = Inl e
                    \<longrightarrow> compile_prompt loads tools messages = Inl e))"
proof -
  obtain e where e: "format_loop loads messages (reset_state, []) = Inl e"
    using format_loop_unknown_fails [OF assms] by blast
  then have fm: "format_messages loads messages = Inl e"
    by (simp add: format_messages_def)
  then have cp: "\<exists>e'. compile_prompt loads tools messages = Inl e'"
    by (simp add: compile_prompt_def split: sum.splits)
  have first: "format_messages loads messages = Inl (ValueError (''Unknown role: '' @ role m))"
    if "messages = pre @ m # post" "\<not> recognised_role (role m)"
      "\<forall>x\<in>set pre. recognised_role (role x) \<and> (\<exists>c. format_message_content loads x = Inr c)"
    for pre m post
    using format_loop_first_unknown [OF that(2,3), of post "(reset_state, [])"] that(1)
    by (simp add: format_messages_def)
  have whole: "compile_prompt loads tools messages = Inl err"
    if "format_messages loads messages = Inl err" "\<exists>header. format_tools tools = Inr header"
    for err
    using that by (auto simp: compile_prompt_def)
  have tools_first: "compile_prompt loads tools messages = Inl err"
    if "format_tools tools = Inl err" for err
    using that by (simp add: compile_prompt_def)
  from fm cp first whole tools_first show ?thesis by blast
qed

theorem unknown_role_aborts_witness:
  "format_messages loads_examples [plain_message ''user'' ''hi'', plain_message ''tool'' ''x'']
     = Inl (ValueError ''Unknown role: tool'')
   \<and> compile_prompt loads_examples None
        [plain_message ''user'' ''hi'', plain_message ''tool'' ''x'']
     = Inl (ValueError ''Unknown role: tool'')"
proof -
  let ?ms = "[plain_message ''user'' ''hi'', plain_message ''tool'' ''x'']"
  have ex: "\<exists>m\<in>set ?ms. \<not> recognised_role (role m)"
    by (simp add: plain_message_def recognised_role_def)
  note fact = unknown_role_aborts [where loads = loads_examples and tools = None, OF ex]
  have decomp: "?ms = [plain_message ''user'' ''hi''] @ plain_message ''tool'' ''x'' # []" by simp
  have bad: "\<not> recognised_role (role (plain_message ''tool'' ''x''))"
    by (simp add: plain_message_def recognised_role_def)
  have pre: "\<forall>x\<in>set [plain_message ''user'' ''hi'']. recognised_role (role x)
                    \<and> (\<exists>c. format_message_content loads_examples x = Inr c)"
    by (simp add: plain_message_def recognised_role_def format_message_content_def)
  have hdr: "\<exists>header. format_tools None = Inr header"
    by (simp add: format_tools_def)
  have "format_messages loads_examples ?ms
          = Inl (ValueError (''Unknown role: '' @ role (plain_message ''tool'' ''x'')))
      \<and> compile_prompt loads_examples None ?ms
          = Inl (ValueError (''Unknown role: '' @ role (plain_message ''tool'' ''x'')))"
    using fact decomp bad pre hdr by blast
  then show ?thesis
    by (simp add: plain_message_def)
qed

text \<open>
  An assistant turn whose \<open>tool_calls\<close> list is empty raises \<open>IndexError\<close> at
  \<open>message["tool_calls"][0]\<close>; standing before the turn of unknown role, it decides the
  exception, which is then no \<open>ValueError\<close>.
\<close>

theorem unknown_role_counterexample:
  "format_messages loads_examples
     [\<lparr>role = ''assistant'', content = None, tool_calls = Some [], function_call = None\<rparr>,
      plain_message ''tool'' ''x'']
     = Inl IndexError
   \<and> \<not> is_ValueError IndexError"
  by (simp add: example_defs)


subsection \<open>The completion parser\<close>

lemma py_getitem_not_object: "(\<forall>kvs. v \<noteq> JObject kvs) \<Longrightarrow> py_getitem v key = Inl TypeError"
  by (cases v) simp_all

lemma parse_tool_calls_decoded:
  assumes "cmpl_choices c = ch # rest" and "loads (choice_text ch) = Inr v"
  shows "parse_tool_calls loads c =
           (case py_getitem v ''function'' of
              Inl e \<Rightarrow> Inl e
            | Inr f \<Rightarrow>
                (case py_getitem v ''arguments'' of
                   Inl e \<Rightarrow> Inl e
                 | Inr a \<Rightarrow>
                     Inr (Some [\<lparr>rtc_id = f, rtc_type = ''function'',
                                 rtc_function = \<lparr>rf_name = f,
                                   rf_arguments = json_dumps (Some 2) a\<rparr>\<rparr>])))"
  using assms by (simp add: parse_tool_calls_def)

lemma parse_tool_calls_undecodable:
  assumes "cmpl_choices c = ch # rest" and "loads (choice_text ch) = Inl JSONDecodeError"
  shows "parse_tool_calls loads c = Inr None"
  using assms by (simp add: parse_tool_calls_def)

text \<open>
  Claim C1.  The claim asks that a completion text which decodes, but not to the shape
  \<open>{function: string, arguments: object}\<close>, comes back as the plain message.  The code does
  not: once the text has decoded, \<open>_parse_tool_calls\<close> never returns \<open>None\<close>, so the message is
  never the plain one.  A decoded value that is not a dict raises \<open>TypeError\<close> at
  \<open>function_call["function"]\<close>, a dict without the key \<open>function\<close> raises \<open>KeyError\<close>, and
  neither is caught by \<open>except json.JSONDecodeError\<close>.
\<close>

theorem decoded_wrong_shape_is_not_plain:
  assumes "cmpl_choices c = ch # rest"
    and "loads (choice_text ch) = Inr v"
    and "\<not> function_call_shape v"
  shows "parse_tool_calls loads c \<noteq> Inr None
       \<and> assistant_message loads c \<noteq>
           Inr \<lparr>rm_role = ''assistant'', rm_content = Some (choice_text ch),
                rm_tool_calls = None, rm_function_call = None\<rparr>
       \<and> ((\<forall>kvs. v \<noteq> JObject kvs) \<longrightarrow> assistant_message loads c = Inl TypeError)
       \<and> ((\<exists>kvs. v = JObject kvs \<and> map_of kvs ''function'' = None)
            \<longrightarrow> assistant_message loads c = Inl (KeyError ''function''))"
proof -
  note eq = parse_tool_calls_decoded [where loads = loads, OF assms(1,2)]
  have not_plain: "parse_tool_calls loads c \<noteq> Inr None"
    unfolding eq by (simp split: sum.splits)
  have msg: "assistant_message loads c \<noteq>
           Inr \<lparr>rm_role = ''assistant'', rm_content = Some (choice_text ch),
                rm_tool_calls = None, rm_function_call = None\<rparr>"
    using not_plain
    by (auto simp: assistant_message_def split: sum.splits option.splits list.splits)
  have ty: "assistant_message loads c = Inl TypeError" if "\<forall>kvs. v \<noteq> JObject kvs"
    using py_getitem_not_object [OF that, of "''function''"]
    by (simp add: assistant_message_def eq)
  have ke: "assistant_message loads c = Inl (KeyError ''function'')"
    if "\<exists>kvs. v = JObject kvs \<and> map_of kvs ''function'' = None"
    using that by (auto simp: assistant_message_def eq)
  from not_plain msg ty ke show ?thesis by blast
qed

text \<open>
  The text \<open>{"foo":"bar"}\<close>: the message is never built, and the handler as a whole raises
  \<open>KeyError\<close> after its one call of the collaborator.
\<close>

theorem decoded_wrong_shape_witness:
  "loads_examples foo_bar_text = Inr (JObject [(''foo'', JString ''bar'')])
   \<and> \<not> function_call_shape (JObject [(''foo'', JString ''bar'')])
   \<and> assistant_message loads_examples
        \<lparr>cmpl_id = ''cmpl-1'', cmpl_created = 0, cmpl_model = ''m'',
         cmpl_choices = [\<lparr>choice_text = foo_bar_text\<rparr>], cmpl_usage = ()\<rparr>
       = Inl (KeyError ''function'')
   \<and> llama2_functary_chat_completion_handler loads_examples (mock_llama foo_bar_text) 0
        [plain_message ''user'' ''hi''] None False StopNone ()
       = (Inl (KeyError ''function''), 1,
          [\<lparr>prompt = ''[INST] hi [/INST]'', stop = [''user:'', ''</s>''], stream = False,
            sampling = ()\<rparr>])"
proof -
  let ?c = "\<lparr>cmpl_id = ''cmpl-1'', cmpl_created = 0, cmpl_model = ''m'',
         cmpl_choices = [\<lparr>choice_text = foo_bar_text\<rparr>], cmpl_usage = ()\<rparr>"
  have dec: "loads_examples foo_bar_text = Inr (JObject [(''foo'', JString ''bar'')])"
    by (simp add: loads_examples_def)
  have shape: "\<not> function_call_shape (JObject [(''foo'', JString ''bar'')])"
    by simp
  have ch: "cmpl_choices ?c = \<lparr>choice_text = foo_bar_text\<rparr> # []" by simp
  have "assistant_message loads_examples ?c = Inl (KeyError ''function'')"
    using decoded_wrong_shape_is_not_plain [where loads = loads_examples, OF ch _ shape] dec
    by simp
  moreover have "llama2_functary_chat_completion_handler loads_examples (mock_llama foo_bar_text) 0
        [plain_message ''user'' ''hi''] None False StopNone ()
       = (Inl (KeyError ''function''), 1,
          [\<lparr>prompt = ''[INST] hi [/INST]'', stop = [''user:'', ''</s>''], stream = False,
            sampling = ()\<rparr>])"
    by (simp add: example_defs)
  ultimately show ?thesis using dec shape by simp
qed

text \<open>
  Claim C5.  When the completion text decodes to a dict whose \<open>function\<close> is a string and
  whose \<open>arguments\<close> is a dict, the assistant message has \<open>content\<close> \<open>None\<close>, a \<open>tool_calls\<close> list
  of exactly one entry with the function name as its \<open>id\<close>, the type \<open>function\<close>, and the
  function field made of the name and of the arguments printed by \<open>json.dumps\<close> with
  \<open>indent=2\<close>; \<open>function_call\<close> holds the same function field.
\<close>

theorem function_call_message:
  assumes "cmpl_choices c = ch # rest"
    and "loads (choice_text ch) = Inr (JObject kvs)"
    and "map_of kvs ''function'' = Some (JString name)"
    and "map_of kvs ''arguments'' = Some (JObject args)"
  shows "assistant_message loads c =
           Inr \<lparr>rm_role = ''assistant'', rm_content = None,
                rm_tool_calls =
                  Some [\<lparr>rtc_id = JString name, rtc_type = ''function'',
                         rtc_function = \<lparr>rf_name = JString name,
                           rf_arguments = json_dumps (Some 2) (JObject args)\<rparr>\<rparr>],
                rm_function_call =
                  Some \<lparr>rf_name = JString name,
                        rf_arguments = json_dumps (Some 2) (JObject args)\<rparr>\<rparr>"
proof -
  have "parse_tool_calls loads c =
          Inr (Some [\<lparr>rtc_id = JString name, rtc_type = ''function'',
                      rtc_function = \<lparr>rf_name = JString name,
                        rf_arguments = json_dumps (Some 2) (JObject args)\<rparr>\<rparr>])"
    using assms(3,4)
    by (simp add: parse_tool_calls_decoded [where loads = loads, OF assms(1,2)])
  then show ?thesis
    by (simp add: assistant_message_def)
qed

lemma dumps_tokyo:
  "json_dumps (Some 2) (JObject [(''location'', JString ''Tokyo'')])
     = [CHR ''{'', nl] @ ''  '' @ [dq] @ ''location'' @ [dq] @ '': '' @ [dq] @ ''Tokyo'' @ [dq, nl, CHR ''}'']"
  by (simp add: json_dumps_def encode_basestring_ascii_def escape_char_def key_separator_def
      dq_def nl_def bsl_def eval_nat_numeral)

text \<open>The text \<open>{"function":"weather","arguments":{"location":"Tokyo"}}\<close>.\<close>

theorem function_call_message_witness:
  "assistant_message loads_examples
      \<lparr>cmpl_id = ''cmpl-1'', cmpl_created = 0, cmpl_model = ''m'',
       cmpl_choices = [\<lparr>choice_text = weather_call_text\<rparr>], cmpl_usage = ()\<rparr>
     = Inr \<lparr>rm_role = ''assistant'', rm_content = None,
            rm_tool_calls =
              Some [\<lparr>rtc_id = JString ''weather'', rtc_type = ''function'',
                     rtc_function = \<lparr>rf_name = JString ''weather'',
                       rf_arguments = [CHR ''{'', nl] @ ''  '' @ [dq] @ ''location'' @ [dq]
                         @ '': '' @ [dq] @ ''Tokyo'' @ [dq, nl, CHR ''}'']\<rparr>\<rparr>],
            rm_function_call =
              Some \<lparr>rf_name = JString ''weather'',
                    rf_arguments = [CHR ''{'', nl] @ ''  '' @ [dq] @ ''location'' @ [dq]
                      @ '': '' @ [dq] @ ''Tokyo'' @ [dq, nl, CHR ''}'']\<rparr>\<rparr>"
proof -
  let ?c = "\<lparr>cmpl_id = ''cmpl-1'', cmpl_created = 0, cmpl_model = ''m'',
       cmpl_choices = [\<lparr>choice_text = weather_call_text\<rparr>], cmpl_usage = ()\<rparr>"
  let ?kvs = "[(''function'', JString ''weather''),
               (''arguments'', JObject [(''location'', JString ''Tokyo'')])]"
  have ch: "cmpl_choices ?c = \<lparr>choice_text = weather_call_text\<rparr> # []" by simp
  have dec: "loads_examples (choice_text \<lparr>choice_text = weather_call_text\<rparr>) = Inr (JObject ?kvs)"
    by (simp add: loads_examples_def foo_bar_text_def weather_call_text_def)
  have f: "map_of ?kvs ''function'' = Some (JString ''weather'')" by simp
  have a: "map_of ?kvs ''arguments'' = Some (JObject [(''location'', JString ''Tokyo'')])" by simp
  show ?thesis
    using function_call_message [where loads = loads_examples, OF ch dec f a]
    by (simp only: dumps_tokyo)
qed

subsection \<open>The handler\<close>

text \<open>
  Claim C6.  Whenever the collaborator returns a completion \<open>c\<close> and the assistant message is
  built from it, the handler returns the envelope with id \<open>"chat" + c["id"]\<close>, object
  \<open>chat.completion\<close>, \<open>created\<close> and \<open>model\<close> copied from \<open>c\<close>, exactly one choice, of index 0 and
  finish reason \<open>stop\<close>, and the usage of \<open>c\<close>.
\<close>

theorem response_envelope:
  assumes "compile_prompt loads tools messages = Inr p"
    and "\<not> stream_param"
    and "create_completion
           \<lparr>prompt = p, stop = [''user:'', ''</s>''], stream = False, sampling = params\<rparr> llama
         = (Inr c, llama')"
    and "assistant_message loads c = Inr msg"
  shows "llama2_functary_chat_completion_handler loads create_completion llama messages tools
           stream_param stop_param params
         = (Inr \<lparr>resp_id = ''chat'' @ cmpl_id c,
                 resp_object = ''chat.completion'',
                 resp_created = cmpl_created c,
                 resp_model = cmpl_model c,
                 resp_choices = [\<lparr>choice_index = 0, choice_message = msg,
                                  finish_reason = ''stop''\<rparr>],
                 resp_usage = cmpl_usage c\<rparr>,
            llama',
            [\<lparr>prompt = p, stop = [''user:'', ''</s>''], stream = False, sampling = params\<rparr>])"
  using assms by (simp add: llama2_functary_chat_completion_handler_def)

text \<open>Conversely, every envelope the handler returns arises in this way.\<close>

lemma response_envelope_only:
  assumes "llama2_functary_chat_completion_handler loads create_completion llama messages tools
           stream_param stop_param params = (Inr resp, llama', calls)"
  shows "\<exists>p c msg. compile_prompt loads tools messages = Inr p \<and> \<not> stream_param
       \<and> create_completion
           \<lparr>prompt = p, stop = [''user:'', ''</s>''], stream = False, sampling = params\<rparr> llama
         = (Inr c, llama')
       \<and> assistant_message loads c = Inr msg"
  using assms
  by (auto simp add: llama2_functary_chat_completion_handler_def Let_def
      split: sum.splits prod.splits if_splits)

theorem response_envelope_witness:
  "llama2_functary_chat_completion_handler loads_examples (mock_llama ''The weather is nice.'')
       (0::nat) [plain_message ''user'' ''hi''] None False StopNone ()
     = (Inr \<lparr>resp_id = ''chatcmpl-1'', resp_object = ''chat.completion'',
             resp_created = 1700000000, resp_model = ''functionary'',
             resp_choices =
               [\<lparr>choice_index = 0,
                 choice_message = \<lparr>rm_role = ''assistant'',
                   rm_content = Some ''The weather is nice.'', rm_tool_calls = None,
                   rm_function_call = None\<rparr>,
                 finish_reason = ''stop''\<rparr>],
             resp_usage = ()\<rparr>,
        1,
        [\<lparr>prompt = ''[INST] hi [/INST]'', stop = [''user:'', ''</s>''], stream = False,
          sampling = ()\<rparr>])"
proof -
  let ?args = "\<lparr>prompt = ''[INST] hi [/INST]'', stop = [''user:'', ''</s>''], stream = False,
          sampling = ()\<rparr>"
  let ?c = "\<lparr>cmpl_id = ''cmpl-1'', cmpl_created = 1700000000, cmpl_model = ''functionary'',
           cmpl_choices = [\<lparr>choice_text = ''The weather is nice.''\<rparr>], cmpl_usage = ()\<rparr>"
  have p: "compile_prompt loads_examples None [plain_message ''user'' ''hi''] = Inr ''[INST] hi [/INST]''"
    by (simp add: example_defs)
  have s: "\<not> False" by simp
  have cc: "mock_llama ''The weather is nice.'' ?args (0::nat) = (Inr ?c, 1)"
    by (simp add: mock_llama_def)
  have m: "assistant_message loads_examples ?c
             = Inr \<lparr>rm_role = ''assistant'', rm_content = Some ''The weather is nice.'',
                    rm_tool_calls = None, rm_function_call = None\<rparr>"
    by (simp add: example_defs)
  show ?thesis
    using response_envelope [where loads = loads_examples and stop_param = StopNone
        and create_completion = "mock_llama ''The weather is nice.''" and llama = "0::nat"
        and stream_param = False, OF p s cc m]
    by simp
qed

text \<open>
  Claim C7.  With \<open>stream\<close> true the handler raises: the exception of the prompt compiler if
  the prompt does not compile (line 141 runs before the assertion of line 143), the
  \<open>AssertionError\<close> otherwise.  In both cases \<open>create_completion\<close> has not been called and the
  state of the collaborator is the one the handler started with.
\<close>

theorem stream_rejected_before_inference:
  assumes "stream_param"
  shows "llama2_functary_chat_completion_handler loads create_completion llama messages tools
           stream_param stop_param params
         = (case compile_prompt loads tools messages of
              Inl e \<Rightarrow> (Inl e, llama, [])
            | Inr p \<Rightarrow> (Inl (AssertionError ''streaming is not supported yet''), llama, []))
       \<and> (\<exists>e. llama2_functary_chat_completion_handler loads create_completion llama messages
                 tools stream_param stop_param params = (Inl e, llama, []))"
  using assms by (simp add: llama2_functary_chat_completion_handler_def split: sum.splits)

theorem stream_rejected_witness:
  "llama2_functary_chat_completion_handler loads_examples (mock_llama ''The weather is nice.'')
       (0::nat) [plain_message ''user'' ''hi''] None True StopNone ()
     = (Inl (AssertionError ''streaming is not supported yet''), 0, [])"
proof -
  have t: "True" by simp
  have p: "compile_prompt loads_examples None [plain_message ''user'' ''hi''] = Inr ''[INST] hi [/INST]''"
    by (simp add: example_defs)
  show ?thesis
    using stream_rejected_before_inference [where loads = loads_examples
        and create_completion = "mock_llama ''The weather is nice.''" and llama = "0::nat"
        and messages = "[plain_message ''user'' ''hi'']" and tools = None
        and stop_param = StopNone and params = "()", OF t]
    by (simp add: p)
qed

text \<open>
  Claim C10.  Two runs of the handler that differ in the \<open>stop\<close> argument only have the same
  result, leave the collaborator in the same state and make the same calls; a call, when one
  is made, carries the stop sequences \<open>["user:", "</s>"]\<close>.
\<close>

theorem stop_argument_ignored:
  "llama2_functary_chat_completion_handler loads create_completion llama messages tools
       stream_param stop_a params
     = llama2_functary_chat_completion_handler loads create_completion llama messages tools
         stream_param stop_b params
   \<and> (snd (snd (llama2_functary_chat_completion_handler loads create_completion llama messages
                  tools stream_param stop_a params)) = []
      \<or> (\<exists>p. snd (snd (llama2_functary_chat_completion_handler loads create_completion llama
                        messages tools stream_param stop_a params))
              = [\<lparr>prompt = p, stop = [''user:'', ''</s>''], stream = False,
                   sampling = params\<rparr>]))"
  by (auto simp add: llama2_functary_chat_completion_handler_def Let_def
      split: sum.splits prod.splits)

theorem stop_argument_ignored_witness:
  "llama2_functary_chat_completion_handler loads_examples (mock_llama ''The weather is nice.'')
       (0::nat) [plain_message ''user'' ''hi''] None False (StopList [''END'']) ()
     = llama2_functary_chat_completion_handler loads_examples (mock_llama ''The weather is nice.'')
       (0::nat) [plain_message ''user'' ''hi''] None False StopNone ()
   \<and> snd (snd (llama2_functary_chat_completion_handler loads_examples
         (mock_llama ''The weather is nice.'') (0::nat) [plain_message ''user'' ''hi''] None False
         (StopList [''END'']) ()))
     = [\<lparr>prompt = ''[INST] hi [/INST]'', stop = [''user:'', ''</s>''], stream = False,
          sampling = ()\<rparr>]"
proof -
  have "snd (snd (llama2_functary_chat_completion_handler loads_examples
         (mock_llama ''The weather is nice.'') (0::nat) [plain_message ''user'' ''hi''] None False
         (StopList [''END'']) ()))
     = [\<lparr>prompt = ''[INST] hi [/INST]'', stop = [''user:'', ''</s>''], stream = False,
          sampling = ()\<rparr>]"
    by (simp add: example_defs)
  then show ?thesis
    using stop_argument_ignored [where loads = loads_examples
        and create_completion = "mock_llama ''The weather is nice.''" and llama = "0::nat"
        and messages = "[plain_message ''user'' ''hi'']" and tools = None
        and stream_param = False and stop_a = "StopList [''END'']" and stop_b = StopNone
        and params = "()"]
    by simp
qed

end
